theory Spec2Isabelle
  imports Main
begin

section \<open>JavaScript values\<close>

text \<open>
  A JavaScript number is modelled as a whole number or \<open>NaN\<close>: the meal table holds whole
  amounts and a quantity counts meals, and on whole numbers below \<open>2^53\<close> the double
  arithmetic of \<open>+\<close>, \<open>-\<close>, \<open>*\<close> and the comparisons are exact. Every operation on \<open>NaN\<close>
  gives \<open>NaN\<close>, and every comparison with it is false.
\<close>

datatype number = Num int | NaN

fun numMul :: "number \<Rightarrow> number \<Rightarrow> number" where
  "numMul (Num a) (Num b) = Num (a * b)"
| "numMul _ _ = NaN"

fun numAdd :: "number \<Rightarrow> number \<Rightarrow> number" where
  "numAdd (Num a) (Num b) = Num (a + b)"
| "numAdd _ _ = NaN"

fun numSub :: "number \<Rightarrow> number \<Rightarrow> number" where
  "numSub (Num a) (Num b) = Num (a - b)"
| "numSub _ _ = NaN"

fun numLt :: "number \<Rightarrow> number \<Rightarrow> bool" where
  "numLt (Num a) (Num b) = (a < b)"
| "numLt _ _ = False"

fun numGt :: "number \<Rightarrow> number \<Rightarrow> bool" where
  "numGt (Num a) (Num b) = (a > b)"
| "numGt _ _ = False"

text \<open>\<open>Math.max\<close> of two numbers.\<close>

fun mathMax :: "number \<Rightarrow> number \<Rightarrow> number" where
  "mathMax (Num a) (Num b) = Num (max a b)"
| "mathMax _ _ = NaN"

text \<open>
  A value as a request body delivers it: the quantity of an order request is whatever the
  body parser read, a number or a string among others, and is stored and used as
  received. Arrays and objects are left out.
\<close>

datatype jsval = JUndefined | JNull | JBool bool | JNumber number | JString string

fun truthy :: "jsval \<Rightarrow> bool" where
  "truthy JUndefined = False"
| "truthy JNull = False"
| "truthy (JBool b) = b"
| "truthy (JNumber (Num n)) = (n \<noteq> 0)"
| "truthy (JNumber NaN) = False"
| "truthy (JString s) = (s \<noteq> [])"

text \<open>
  Instants (\<open>Date\<close> objects and the ISO strings made from them) are kept as the
  milliseconds since the epoch they denote. A string property that may be \<open>undefined\<close> is
  an \<open>option\<close>.
\<close>

type_synonym timestamp = int

text \<open>Truthiness of a string-or-undefined.\<close>

definition truthyStr :: "string option \<Rightarrow> bool" where
  "truthyStr s = (case s of None \<Rightarrow> False | Some t \<Rightarrow> t \<noteq> [])"

text \<open>An undefined value used as an object key is the key \<open>"undefined"\<close>.\<close>

definition keyOf :: "string option \<Rightarrow> string" where
  "keyOf k = (case k of None \<Rightarrow> ''undefined'' | Some s \<Rightarrow> s)"

text \<open>Decimal rendering, for template strings and \<open>Number.prototype.toString\<close>.\<close>

definition digitChar :: "nat \<Rightarrow> char" where
  "digitChar d = ''0123456789'' ! d"

function showNat :: "nat \<Rightarrow> string" where
  "showNat n = (if n < 10 then [digitChar n] else showNat (n div 10) @ [digitChar (n mod 10)])"
  by pat_completeness auto
termination
  by (relation "measure (\<lambda>n. n)") auto

declare showNat.simps [simp del]

definition showInt :: "int \<Rightarrow> string" where
  "showInt i = (if i < 0 then CHR ''-'' # showNat (nat (- i)) else showNat (nat i))"

text \<open>\<open>s.slice(-k)\<close>: the last \<open>k\<close> characters, the whole string when it is shorter.\<close>

definition sliceLast :: "nat \<Rightarrow> string \<Rightarrow> string" where
  "sliceLast k s = drop (length s - k) s"

text \<open>\<open>Array.prototype.findIndex\<close>, with \<open>None\<close> for \<open>-1\<close>.\<close>

fun findIndex :: "('a \<Rightarrow> bool) \<Rightarrow> 'a list \<Rightarrow> nat option" where
  "findIndex P [] = None"
| "findIndex P (x # xs) =
     (if P x then Some 0 else (case findIndex P xs of None \<Rightarrow> None | Some i \<Rightarrow> Some (Suc i)))"

text \<open>
  What the services read from their environment: the clock, the local midnight that
  \<open>new Date().setHours(0, 0, 0, 0)\<close> gives, the engine's date parser
  (\<open>None\<close> for an invalid date, whose time value is \<open>NaN\<close>), and the engine's conversion
  of a non-empty string to a number.
\<close>

record env =
  now :: timestamp
  today :: timestamp
  parseDate :: "string \<Rightarrow> timestamp option"
  stringToNumber :: "string \<Rightarrow> number"

text \<open>
  The conversions the operators apply: \<open>ToNumber\<close> for \<open>*\<close>, \<open>-\<close>, \<open><\<close> and \<open>>\<close> against
  a number, and \<open>ToString\<close> for a \<open>+\<close> with a string operand.
\<close>

fun toNumber :: "env \<Rightarrow> jsval \<Rightarrow> number" where
  "toNumber e JUndefined = NaN"
| "toNumber e JNull = Num 0"
| "toNumber e (JBool b) = Num (if b then 1 else 0)"
| "toNumber e (JNumber n) = n"
| "toNumber e (JString s) = (if s = [] then Num 0 else stringToNumber e s)"

fun toStringJs :: "jsval \<Rightarrow> string" where
  "toStringJs JUndefined = ''undefined''"
| "toStringJs JNull = ''null''"
| "toStringJs (JBool b) = (if b then ''true'' else ''false'')"
| "toStringJs (JNumber (Num n)) = showInt n"
| "toStringJs (JNumber NaN) = ''NaN''"
| "toStringJs (JString s) = s"

text \<open>The operator \<open>+\<close>: concatenation when an operand is a string, addition otherwise.\<close>

fun jsPlus :: "env \<Rightarrow> jsval \<Rightarrow> jsval \<Rightarrow> jsval" where
  "jsPlus e (JString s) b = JString (s @ toStringJs b)"
| "jsPlus e a (JString t) = JString (toStringJs a @ t)"
| "jsPlus e a b = JNumber (numAdd (toNumber e a) (toNumber e b))"

definition newDate :: "env \<Rightarrow> string option \<Rightarrow> timestamp option" where
  "newDate e s = (case s of None \<Rightarrow> None | Some t \<Rightarrow> parseDate e t)"

section \<open>Order model (order-service/models/Order.js)\<close>

record metadata =
  mealName :: string
  nutritionScore :: int
  orderSource :: string
  apiVersion :: string
  cancelledBy :: "string option"

record historyEntry =
  h_status :: string
  h_timestamp :: timestamp
  h_staffId :: string
  h_notes :: "string option"

text \<open>The object that \<open>OrderService.createOrder\<close> hands to \<open>Order.create\<close>.\<close>

record orderData_processed =
  p_studentId :: string
  p_mealId :: "string option"
  p_schoolId :: string
  p_scheduledDate :: "string option"
  p_quantity :: jsval
  p_totalAmount :: number
  p_subsidyAmount :: number
  p_finalAmount :: number
  p_dietaryRestrictions :: "string list"
  p_specialInstructions :: "string option"
  p_pickupTime :: "string option"
  p_metadata :: metadata

record order =
  orderId :: string
  studentId :: string
  mealId :: "string option"
  schoolId :: string
  scheduledDate :: "string option"
  quantity :: jsval
  totalAmount :: number
  subsidyAmount :: number
  finalAmount :: number
  dietaryRestrictions :: "string list"
  specialInstructions :: "string option"
  pickupTime :: "string option"
  metadata :: metadata
  orderDate :: timestamp
  status :: string
  paymentStatus :: string
  paymentId :: "string option"
  createdAt :: timestamp
  updatedAt :: timestamp
  cancelledAt :: "timestamp option"
  cancellationReason :: "string option"
  updatedBy :: "string option"
  staffNotes :: "string option"
  statusHistory :: "historyEntry list option"

text \<open>The singleton store: \<open>this.orders\<close> and \<open>this.counter\<close>.\<close>

record orderStore =
  orders :: "order list"
  counter :: nat

definition emptyStore :: orderStore where
  "emptyStore = \<lparr>orders = [], counter = 1000\<rparr>"

definition create :: "env \<Rightarrow> orderStore \<Rightarrow> orderData_processed \<Rightarrow> order \<times> orderStore" where
  "create e s d =
     (let newOrder = \<lparr>
            orderId = ''ORD'' @ showNat (counter s) @ sliceLast 4 (showInt (now e)),
            studentId = p_studentId d,
            mealId = p_mealId d,
            schoolId = p_schoolId d,
            scheduledDate = p_scheduledDate d,
            quantity = p_quantity d,
            totalAmount = p_totalAmount d,
            subsidyAmount = p_subsidyAmount d,
            finalAmount = p_finalAmount d,
            dietaryRestrictions = p_dietaryRestrictions d,
            specialInstructions = p_specialInstructions d,
            pickupTime = p_pickupTime d,
            metadata = p_metadata d,
            orderDate = now e,
            status = ''PENDING'',
            paymentStatus = (if numGt (p_finalAmount d) (Num 0) then ''PENDING'' else ''PAID''),
            paymentId = None,
            createdAt = now e,
            updatedAt = now e,
            cancelledAt = None,
            cancellationReason = None,
            updatedBy = None,
            staffNotes = None,
            statusHistory = None\<rparr>
      in (newOrder, s\<lparr>orders := orders s @ [newOrder], counter := Suc (counter s)\<rparr>))"

definition findById :: "orderStore \<Rightarrow> string \<Rightarrow> order option" where
  "findById s oid = find (\<lambda>ord. orderId ord = oid) (orders s)"

definition findExistingOrder :: "orderStore \<Rightarrow> string \<Rightarrow> string option \<Rightarrow> order option" where
  "findExistingOrder s sid date =
     find (\<lambda>ord. studentId ord = sid \<and> scheduledDate ord = date \<and> status ord \<noteq> ''CANCELLED'')
       (orders s)"

definition cancel :: "env \<Rightarrow> orderStore \<Rightarrow> string \<Rightarrow> string option \<Rightarrow> order option \<times> orderStore" where
  "cancel e s oid reason =
     (case findIndex (\<lambda>ord. orderId ord = oid) (orders s) of
        None \<Rightarrow> (None, s)
      | Some i \<Rightarrow>
          (let old = orders s ! i;
               upd = old\<lparr>status := ''CANCELLED'',
                         cancelledAt := Some (now e),
                         cancellationReason := reason,
                         updatedAt := now e,
                         metadata := (metadata old)\<lparr>cancelledBy := Some ''student''\<rparr>\<rparr>
           in (Some upd, s\<lparr>orders := (orders s)[i := upd]\<rparr>)))"

definition updateStatus ::
  "env \<Rightarrow> orderStore \<Rightarrow> string \<Rightarrow> string \<Rightarrow> string \<Rightarrow> string option \<Rightarrow> order option \<times> orderStore" where
  "updateStatus e s oid newStatus staffId notes =
     (case findIndex (\<lambda>ord. orderId ord = oid) (orders s) of
        None \<Rightarrow> (None, s)
      | Some i \<Rightarrow>
          (let old = orders s ! i;
               upd = old\<lparr>status := newStatus,
                         updatedAt := now e,
                         updatedBy := Some staffId,
                         staffNotes := notes,
                         statusHistory :=
                           Some ((case statusHistory old of None \<Rightarrow> [] | Some h \<Rightarrow> h) @
                             [\<lparr>h_status = newStatus, h_timestamp = now e,
                               h_staffId = staffId, h_notes = notes\<rparr>])\<rparr>
           in (Some upd, s\<lparr>orders := (orders s)[i := upd]\<rparr>)))"

definition updatePaymentStatus ::
  "env \<Rightarrow> orderStore \<Rightarrow> string \<Rightarrow> string \<Rightarrow> order option \<times> orderStore" where
  "updatePaymentStatus e s oid ps =
     (case findIndex (\<lambda>ord. orderId ord = oid) (orders s) of
        None \<Rightarrow> (None, s)
      | Some i \<Rightarrow>
          (let upd = (orders s ! i)\<lparr>paymentStatus := ps, updatedAt := now e\<rparr>
           in (Some upd, s\<lparr>orders := (orders s)[i := upd]\<rparr>)))"

section \<open>Meal and student services (mock tables)\<close>

record meal =
  meal_id :: string
  meal_name :: string
  description :: string
  price :: int
  meal_subsidyAmount :: int
  meal_nutritionScore :: int
  available :: bool
  maxQuantityPerDay :: int
  currentQuantity :: jsval

record student =
  student_id :: string
  student_name :: string
  school :: string
  grade :: string
  subsidyEligible :: bool
  student_dietaryRestrictions :: "string list"
  parentId :: string

text \<open>
  The three singletons the order service works on: the order model, the table of
  \<open>MealService\<close> and the table of \<open>StudentService\<close>.
\<close>

record world =
  orderModel :: orderStore
  meals :: "string \<rightharpoonup> meal"
  students :: "string \<rightharpoonup> student"

definition initialMeals :: "string \<rightharpoonup> meal" where
  "initialMeals =
     [''meal_001'' \<mapsto>
        \<lparr>meal_id = ''meal_001'', meal_name = ''Rice and Curry'',
         description = ''Traditional Sri Lankan rice with mixed vegetables and dhal curry'',
         price = 50, meal_subsidyAmount = 30, meal_nutritionScore = 85, available = True,
         maxQuantityPerDay = 100, currentQuantity = JNumber (Num 95)\<rparr>,
      ''meal_002'' \<mapsto>
        \<lparr>meal_id = ''meal_002'', meal_name = ''Chicken Sandwich'',
         description = ''Grilled chicken sandwich with fresh vegetables'',
         price = 80, meal_subsidyAmount = 20, meal_nutritionScore = 75, available = True,
         maxQuantityPerDay = 50, currentQuantity = JNumber (Num 48)\<rparr>]"

definition initialStudents :: "string \<rightharpoonup> student" where
  "initialStudents =
     [''student123'' \<mapsto>
        \<lparr>student_id = ''student123'', student_name = ''Kamal Perera'',
         school = ''Royal College'', grade = ''10A'', subsidyEligible = True,
         student_dietaryRestrictions = [''vegetarian''], parentId = ''parent456''\<rparr>,
      ''student124'' \<mapsto>
        \<lparr>student_id = ''student124'', student_name = ''Nimal Silva'',
         school = ''Royal College'', grade = ''9B'', subsidyEligible = True,
         student_dietaryRestrictions = [], parentId = ''parent457''\<rparr>]"

definition initialWorld :: world where
  "initialWorld = \<lparr>orderModel = emptyStore, meals = initialMeals, students = initialStudents\<rparr>"

definition getMealById :: "world \<Rightarrow> string option \<Rightarrow> meal option" where
  "getMealById w mid = meals w (keyOf mid)"

text \<open>
  \<open>currentQuantity -= quantity\<close> subtracts the numbers the two operands convert to;
  \<open>currentQuantity += quantity\<close> is the operator \<open>+\<close>, which concatenates when the stored
  quantity (or the counter) is a string.
\<close>

definition updateAvailability ::
  "env \<Rightarrow> world \<Rightarrow> string option \<Rightarrow> string option \<Rightarrow> jsval \<Rightarrow> world" where
  "updateAvailability e w mid date q =
     (case meals w (keyOf mid) of
        None \<Rightarrow> w
      | Some m \<Rightarrow>
          w\<lparr>meals := (meals w)(keyOf mid \<mapsto>
              m\<lparr>currentQuantity :=
                  JNumber (numSub (toNumber e (currentQuantity m)) (toNumber e q))\<rparr>)\<rparr>)"

definition restoreAvailability ::
  "env \<Rightarrow> world \<Rightarrow> string option \<Rightarrow> string option \<Rightarrow> jsval \<Rightarrow> world" where
  "restoreAvailability e w mid date q =
     (case meals w (keyOf mid) of
        None \<Rightarrow> w
      | Some m \<Rightarrow>
          w\<lparr>meals := (meals w)(keyOf mid \<mapsto>
              m\<lparr>currentQuantity := jsPlus e (currentQuantity m) q\<rparr>)\<rparr>)"

definition getStudentById :: "world \<Rightarrow> string \<Rightarrow> student option" where
  "getStudentById w sid = students w sid"

section \<open>Order service (OrderService)\<close>

text \<open>An \<open>Error\<close> thrown with its ad hoc \<open>statusCode\<close> and \<open>code\<close> fields.\<close>

record svcError =
  statusCode :: nat
  code :: string
  message :: string

text \<open>The request body of \<open>POST /api/orders\<close>, as the middleware and the service read it.\<close>

record orderData =
  od_mealId :: "string option"
  od_scheduledDate :: "string option"
  od_quantity :: jsval
  od_pickupTime :: "string option"
  od_specialInstructions :: "string option"

record createResult =
  cr_order :: order
  cr_message :: string
  cr_nextSteps :: "string list"

record orderResult =
  or_order :: "order option"
  or_message :: string

text \<open>\<open>orderDate < today\<close> on the time values; a comparison with \<open>NaN\<close> is false.\<close>

definition dateBefore :: "timestamp option \<Rightarrow> timestamp \<Rightarrow> bool" where
  "dateBefore d t = (case d of None \<Rightarrow> False | Some x \<Rightarrow> x < t)"

definition createOrder :: "env \<Rightarrow> world \<Rightarrow> string \<Rightarrow> orderData \<Rightarrow> (svcError + createResult) \<times> world" where
  "createOrder e w sid od =
     (let qty = (if od_quantity od = JUndefined then JNumber (Num 1) else od_quantity od) in
      if dateBefore (newDate e (od_scheduledDate od)) (today e) then
        (Inl \<lparr>statusCode = 400, code = ''invalid_date'',
              message = ''Cannot order meals for past dates''\<rparr>, w)
      else
        (case getMealById w (od_mealId od) of
           None \<Rightarrow>
             (Inl \<lparr>statusCode = 404, code = ''meal_not_available'',
                   message = ''Selected meal is not available''\<rparr>, w)
         | Some ml \<Rightarrow>
             if \<not> available ml then
               (Inl \<lparr>statusCode = 404, code = ''meal_not_available'',
                     message = ''Selected meal is not available''\<rparr>, w)
             else
               (case getStudentById w sid of
                  None \<Rightarrow>
                    (Inl \<lparr>statusCode = 401, code = ''student_not_found'',
                          message = ''Student not found in system''\<rparr>, w)
                | Some st \<Rightarrow>
                    (case findExistingOrder (orderModel w) sid (od_scheduledDate od) of
                       Some existing \<Rightarrow>
                         (Inl \<lparr>statusCode = 409, code = ''duplicate_order'',
                               message = ''You already have an order for this date''\<rparr>, w)
                     | None \<Rightarrow>
                         (let total = numMul (Num (price ml)) (toNumber e qty);
                              subsidy =
                                (if subsidyEligible st
                                 then numMul (Num (meal_subsidyAmount ml)) (toNumber e qty)
                                 else Num 0);
                              final = mathMax (Num 0) (numSub total subsidy);
                              processed = \<lparr>
                                p_studentId = sid,
                                p_mealId = od_mealId od,
                                p_schoolId = school st,
                                p_scheduledDate = od_scheduledDate od,
                                p_quantity = qty,
                                p_totalAmount = total,
                                p_subsidyAmount = subsidy,
                                p_finalAmount = final,
                                p_dietaryRestrictions = student_dietaryRestrictions st,
                                p_specialInstructions = od_specialInstructions od,
                                p_pickupTime = od_pickupTime od,
                                p_metadata = \<lparr>mealName = meal_name ml,
                                  nutritionScore = meal_nutritionScore ml,
                                  orderSource = ''web_app'', apiVersion = ''v1'',
                                  cancelledBy = None\<rparr>\<rparr>;
                              (newOrder, s1) = create e (orderModel w) processed;
                              w1 = w\<lparr>orderModel := s1\<rparr>;
                              w2 = updateAvailability e w1 (od_mealId od) (od_scheduledDate od) qty
                          in (Inr \<lparr>cr_order = newOrder,
                                    cr_message = ''Order placed successfully'',
                                    cr_nextSteps =
                                      (if numGt final (Num 0) then [''Complete payment to confirm order'']
                                       else [''Order confirmed - fully subsidized''])\<rparr>, w2))))))"

definition cancelOrder :: "env \<Rightarrow> world \<Rightarrow> string \<Rightarrow> string \<Rightarrow> string option \<Rightarrow> (svcError + orderResult) \<times> world" where
  "cancelOrder e w oid sid reason =
     (case findById (orderModel w) oid of
        None \<Rightarrow>
          (Inl \<lparr>statusCode = 404, code = ''order_not_found'', message = ''Order not found''\<rparr>, w)
      | Some ord \<Rightarrow>
          if studentId ord \<noteq> sid then
            (Inl \<lparr>statusCode = 404, code = ''order_not_found'', message = ''Order not found''\<rparr>, w)
          else if status ord \<notin> set [''PENDING'', ''CONFIRMED''] then
            (Inl \<lparr>statusCode = 400, code = ''cannot_cancel'',
                  message = ''Order cannot be cancelled at this stage''\<rparr>, w)
          else
            (let (updatedOrder, s1) = cancel e (orderModel w) oid reason;
                 s2 = (if paymentStatus ord = ''PAID'' \<and> numGt (finalAmount ord) (Num 0)
                       then snd (updatePaymentStatus e s1 oid ''REFUNDED'') else s1);
                 w1 = w\<lparr>orderModel := s2\<rparr>;
                 w2 = restoreAvailability e w1 (mealId ord) (scheduledDate ord) (quantity ord)
             in (Inr \<lparr>or_order = updatedOrder,
                       or_message = ''Order cancelled successfully''\<rparr>, w2)))"

definition updateOrderStatus ::
  "env \<Rightarrow> world \<Rightarrow> string \<Rightarrow> string \<Rightarrow> string \<Rightarrow> string option \<Rightarrow> (svcError + orderResult) \<times> world" where
  "updateOrderStatus e w oid staffId newStatus notes =
     (case findById (orderModel w) oid of
        None \<Rightarrow>
          (Inl \<lparr>statusCode = 404, code = ''order_not_found'', message = ''Order not found''\<rparr>, w)
      | Some ord \<Rightarrow>
          (let (updatedOrder, s1) = updateStatus e (orderModel w) oid newStatus staffId notes
           in (Inr \<lparr>or_order = updatedOrder,
                     or_message = ''Order status updated successfully''\<rparr>,
               w\<lparr>orderModel := s1\<rparr>)))"

section \<open>Request validation (order-service/middleware/validation.js)\<close>

record errorBody =
  eb_success :: bool
  eb_error :: string
  eb_message :: string
  eb_details :: "string list option"
  eb_validStatuses :: "string list option"

text \<open>A middleware either answers the request itself or calls \<open>next()\<close>.\<close>

datatype middlewareResult = Responded nat errorBody | Next

definition validateOrderRequest :: "env \<Rightarrow> orderData \<Rightarrow> middlewareResult" where
  "validateOrderRequest e body =
     (let errors =
            (if \<not> truthyStr (od_mealId body) then [''Meal ID is required''] else []) @
            (if \<not> truthyStr (od_scheduledDate body) then [''Scheduled date is required''] else []) @
            (if \<not> truthy (od_quantity body) \<or> numLt (toNumber e (od_quantity body)) (Num 1)
             then [''Valid quantity is required''] else []) @
            (if truthyStr (od_scheduledDate body) \<and> newDate e (od_scheduledDate body) = None
             then [''Invalid date format''] else []) @
            (if truthy (od_quantity body) \<and> numGt (toNumber e (od_quantity body)) (Num 10)
             then [''Maximum 10 meals per order''] else [])
      in if length errors > 0 then
           Responded 400 \<lparr>eb_success = False, eb_error = ''validation_error'',
             eb_message = ''Request validation failed'', eb_details = Some errors,
             eb_validStatuses = None\<rparr>
         else Next)"

definition validStatuses :: "string list" where
  "validStatuses = [''CONFIRMED'', ''PREPARING'', ''READY'', ''DELIVERED'']"

definition validateStatusUpdate :: "string option \<Rightarrow> middlewareResult" where
  "validateStatusUpdate st =
     (if \<not> truthyStr st \<or> (case st of None \<Rightarrow> True | Some s \<Rightarrow> s \<notin> set validStatuses) then
        Responded 400 \<lparr>eb_success = False, eb_error = ''validation_error'',
          eb_message = ''Valid status is required'', eb_details = None,
          eb_validStatuses = Some validStatuses\<rparr>
      else Next)"

section \<open>Mock PayDPI client (payment-service/clients/PayDPIClient.js)\<close>

text \<open>
  A stored payment. The amounts are payloads that the operations below only copy; the
  free-form \<open>customerInfo\<close> object is left out.
\<close>

record payment =
  pay_paymentId :: string
  pay_merchantId :: string
  pay_orderId :: string
  pay_amount :: int
  pay_currency :: string
  pay_description :: string
  pay_status :: string
  pay_fees :: int
  pay_initiatedAt :: timestamp
  pay_expiresAt :: timestamp
  pay_paymentMethods :: "string list"
  pay_paymentMethod :: "string option"
  pay_transactionId :: "string option"
  pay_completedAt :: "timestamp option"
  pay_cardLast4 :: "string option"
  pay_cancelledAt :: "timestamp option"
  pay_cancellationReason :: "string option"

record payError =
  pe_code :: string
  pe_message :: string

text \<open>
  The clock readings of one poll, in the order the code takes them, and its random draws:
  the index \<open>Math.floor(Math.random() * 5)\<close>, the transaction id and the four card digits.
\<close>

record pollClock =
  t_now :: timestamp
  t_completed :: timestamp
  t_expiry :: timestamp

record draws =
  d_method :: nat
  d_transactionId :: string
  d_cardLast4 :: string

definition getRandomPaymentMethod :: "draws \<Rightarrow> string" where
  "getRandomPaymentMethod r =
     [''CREDIT_CARD'', ''DEBIT_CARD'', ''DIGITAL_WALLET'', ''BANK_TRANSFER'', ''QR_CODE'']
       ! (d_method r mod 5)"

text \<open>\<open>String.prototype.includes\<close>.\<close>

definition includes_str :: "string \<Rightarrow> string \<Rightarrow> bool" where
  "includes_str s p = list_ex (\<lambda>i. take (length p) (drop i s) = p) [0..<Suc (length s)]"

record statusResponse =
  sr_paymentId :: string
  sr_orderId :: string
  sr_status :: string
  sr_amount :: int
  sr_currency :: string
  sr_initiatedAt :: timestamp
  sr_fees :: int
  sr_paymentMethod :: "string option"
  sr_transactionId :: "string option"
  sr_completedAt :: "timestamp option"
  sr_cardLast4 :: "string option"
  sr_expiresAt :: "timestamp option"

definition getPaymentStatus ::
  "pollClock \<Rightarrow> draws \<Rightarrow> (string \<rightharpoonup> payment) \<Rightarrow> string \<Rightarrow>
     (payError + statusResponse) \<times> (string \<rightharpoonup> payment)" where
  "getPaymentStatus c r payments pid =
     (case payments pid of
        None \<Rightarrow> (Inl \<lparr>pe_code = ''NOT_FOUND'', pe_message = ''Payment not found''\<rparr>, payments)
      | Some p0 \<Rightarrow>
          (let elapsed = t_now c - pay_initiatedAt p0;
               p1 = (if pay_status p0 = ''INITIATED'' \<and> elapsed > 30000
                     then p0\<lparr>pay_status := ''PROCESSING''\<rparr> else p0);
               p2 = (if pay_status p1 = ''PROCESSING'' \<and> elapsed > 60000
                     then (let m = getRandomPaymentMethod r;
                               q = p1\<lparr>pay_status := ''COMPLETED'',
                                      pay_paymentMethod := Some m,
                                      pay_transactionId := Some (d_transactionId r),
                                      pay_completedAt := Some (t_completed c)\<rparr>
                           in if includes_str m ''CARD'' then q\<lparr>pay_cardLast4 := Some (d_cardLast4 r)\<rparr>
                              else q)
                     else p1);
               p3 = (if t_expiry c > pay_expiresAt p2 \<and> pay_status p2 = ''INITIATED''
                     then p2\<lparr>pay_status := ''EXPIRED''\<rparr> else p2);
               completed = (pay_status p3 = ''COMPLETED'');
               response = \<lparr>
                 sr_paymentId = pay_paymentId p3,
                 sr_orderId = pay_orderId p3,
                 sr_status = pay_status p3,
                 sr_amount = pay_amount p3,
                 sr_currency = pay_currency p3,
                 sr_initiatedAt = pay_initiatedAt p3,
                 sr_fees = pay_fees p3,
                 sr_paymentMethod = (if completed then pay_paymentMethod p3 else None),
                 sr_transactionId = (if completed then pay_transactionId p3 else None),
                 sr_completedAt = (if completed then pay_completedAt p3 else None),
                 sr_cardLast4 =
                   (if completed \<and> truthyStr (pay_cardLast4 p3) then pay_cardLast4 p3 else None),
                 sr_expiresAt =
                   (if pay_status p3 \<in> set [''INITIATED'', ''PROCESSING'']
                    then Some (pay_expiresAt p3) else None)\<rparr>
           in (Inr response, payments(pid \<mapsto> p3))))"

record cancelResponse =
  cn_paymentId :: string
  cn_status :: string
  cn_cancelledAt :: "timestamp option"
  cn_refundAmount :: int

definition cancelPayment ::
  "timestamp \<Rightarrow> (string \<rightharpoonup> payment) \<Rightarrow> string \<Rightarrow> string option \<Rightarrow>
     (payError + cancelResponse) \<times> (string \<rightharpoonup> payment)" where
  "cancelPayment t payments pid reasonArg =
     (let reason = (case reasonArg of None \<Rightarrow> ''Customer requested cancellation'' | Some x \<Rightarrow> x) in
      case payments pid of
        None \<Rightarrow> (Inl \<lparr>pe_code = ''NOT_FOUND'', pe_message = ''Payment not found''\<rparr>, payments)
      | Some p0 \<Rightarrow>
          if pay_status p0 \<notin> set [''INITIATED'', ''PROCESSING''] then
            (Inl \<lparr>pe_code = ''INVALID_STATE'',
                  pe_message = ''Cannot cancel payment in '' @ pay_status p0 @ '' status''\<rparr>,
             payments)
          else
            (let p1 = p0\<lparr>pay_status := ''CANCELLED'',
                          pay_cancelledAt := Some t,
                          pay_cancellationReason := Some reason\<rparr>;
                 response = \<lparr>
                   cn_paymentId = pay_paymentId p1,
                   cn_status = ''CANCELLED'',
                   cn_cancelledAt = pay_cancelledAt p1,
                   cn_refundAmount =
                     (if pay_status p1 = ''PROCESSING'' then pay_amount p1 else 0)\<rparr>
             in (Inr response, payments(pid \<mapsto> p1))))"

section \<open>Notions the properties are stated with\<close>



text \<open>
  The quantity \<open>createOrder\<close> works with: the default value 1 of the destructuring stands in
  for an absent one, any other value is taken as received.
\<close>

definition orderedQuantity :: "orderData \<Rightarrow> jsval" where
  "orderedQuantity od = (if od_quantity od = JUndefined then JNumber (Num 1) else od_quantity od)"

text \<open>How far a payment has got: a poll may only keep or raise this.\<close>

definition statusRank :: "string \<Rightarrow> nat" where
  "statusRank s = (if s = ''INITIATED'' then 0 else if s = ''PROCESSING'' then 1 else 2)"

section \<open>Concrete inputs\<close>

text \<open>
  A clock at 2025-11-03 12:00:34 UTC with local midnight at 2025-11-02 18:30 UTC, a
  parser that knows two dates, and a string conversion that knows the numerals 3 and 11.
\<close>

definition env0 :: env where
  "env0 = \<lparr>now = 1762171234567, today = 1762108200000,
     parseDate = (\<lambda>s. if s = ''2030-01-01'' then Some 1893456000000
                      else if s = ''2020-01-01'' then Some 1577836800000 else None),
     stringToNumber = (\<lambda>s. if s = ''3'' then Num 3 else if s = ''11'' then Num 11 else NaN)\<rparr>"

definition od0 :: orderData where
  "od0 = \<lparr>od_mealId = Some ''meal_001'', od_scheduledDate = Some ''2030-01-01'',
     od_quantity = JNumber (Num 3), od_pickupTime = None, od_specialInstructions = None\<rparr>"

text \<open>The same request with the quantity sent as the string \<open>"3"\<close>.\<close>

definition odStr :: orderData where
  "odStr = od0\<lparr>od_quantity := JString ''3''\<rparr>"

definition odPast :: orderData where
  "odPast = od0\<lparr>od_scheduledDate := Some ''2020-01-01''\<rparr>"

definition pay0 :: payment where
  "pay0 = \<lparr>pay_paymentId = ''PAY_20251103_5001'', pay_merchantId = ''MERCHANT_001'',
     pay_orderId = ''ORD10004567'', pay_amount = 60, pay_currency = ''LKR'',
     pay_description = ''Meal order'', pay_status = ''INITIATED'', pay_fees = 2,
     pay_initiatedAt = 1762171234567, pay_expiresAt = 1762174834567,
     pay_paymentMethods = [''CREDIT_CARD'', ''DEBIT_CARD'', ''DIGITAL_WALLET''],
     pay_paymentMethod = None, pay_transactionId = None, pay_completedAt = None,
     pay_cardLast4 = None, pay_cancelledAt = None, pay_cancellationReason = None\<rparr>"

definition draws0 :: draws where
  "draws0 = \<lparr>d_method = 0, d_transactionId = ''TXN_ABC123XYZ'', d_cardLast4 = ''4242''\<rparr>"

definition payments0 :: "string \<rightharpoonup> payment" where
  "payments0 = [''PAY_20251103_5001'' \<mapsto> pay0\<lparr>pay_status := ''PROCESSING''\<rparr>]"

definition payments1 :: "string \<rightharpoonup> payment" where
  "payments1 = [''PAY_20251103_5001'' \<mapsto> pay0]"

text \<open>
  A run of the order service from the initial tables: student123 orders for 2030-01-01,
  cancels, orders again for the same date, and a member of staff then sets the first
  order to CONFIRMED. In another run the first order is set to DELIVERED.
\<close>

definition worldA :: world where
  "worldA = snd (createOrder env0 initialWorld ''student123'' od0)"

definition worldB :: world where
  "worldB = snd (cancelOrder env0 worldA ''ORD10004567'' ''student123'' None)"

definition worldC :: world where
  "worldC = snd (createOrder env0 worldB ''student123'' od0)"


definition worldDel :: world where
  "worldDel = snd (updateOrderStatus env0 worldA ''ORD10004567'' ''staff1'' ''DELIVERED'' None)"

text \<open>The run with the string quantity: the order is placed and then cancelled.\<close>

definition worldS1 :: world where
  "worldS1 = snd (createOrder env0 initialWorld ''student123'' odStr)"

definition worldS2 :: world where
  "worldS2 = snd (cancelOrder env0 worldS1 ''ORD10004567'' ''student123'' None)"

text \<open>
  A server in New York at noon of 2025-11-03 (17:00 UTC, the zone being five hours behind
  UTC that day): local midnight is 05:00 UTC, and the date-only string \<open>2025-11-03\<close> parses
  as midnight UTC, which is day 20395 after the epoch. The request orders for that date.
\<close>

definition envNewYork :: env where
  "envNewYork = \<lparr>now = 1762189200000, today = 1762146000000,
     parseDate = (\<lambda>s. if s = ''2025-11-03'' then Some 1762128000000 else None),
     stringToNumber = (\<lambda>s. NaN)\<rparr>"

definition odToday :: orderData where
  "odToday = od0\<lparr>od_scheduledDate := Some ''2025-11-03''\<rparr>"


definition summary :: "world \<Rightarrow> (string \<times> string \<times> string option \<times> string) list" where
  "summary w =
     map (\<lambda>ord. (orderId ord, studentId ord, scheduledDate ord, status ord)) (orders (orderModel w))"

section \<open>Order creation at the model\<close>

text \<open>
  C9. Every order made by \<open>Order.create\<close> starts with status PENDING and no payment id;
  its paymentStatus is PAID when finalAmount is not greater than 0 and PENDING when it is.
  The order returned is the one appended to the store.
\<close>

theorem create_initial_status:
  "status (fst (create e s d)) = ''PENDING'' \<and>
   paymentId (fst (create e s d)) = None \<and>
   paymentStatus (fst (create e s d)) =
     (if numGt (p_finalAmount d) (Num 0) then ''PENDING'' else ''PAID'') \<and>
   finalAmount (fst (create e s d)) = p_finalAmount d \<and>
   orders (snd (create e s d)) = orders s @ [fst (create e s d)]"
  by (simp add: create_def Let_def)

section \<open>Lists: find and findIndex\<close>

lemma findIndex_Some:
  "findIndex P xs = Some i \<Longrightarrow> i < length xs \<and> P (xs ! i) \<and> find P xs = Some (xs ! i)"
  by (induction xs arbitrary: i) (auto split: if_splits option.splits)

lemma find_Some_findIndex:
  "find P xs = Some x \<Longrightarrow> \<exists>i. findIndex P xs = Some i \<and> i < length xs \<and> xs ! i = x"
  by (induction xs) (auto split: if_splits)

lemma find_list_update:
  "findIndex P xs = Some i \<Longrightarrow> P y \<Longrightarrow> find P (xs[i := y]) = Some y"
  by (induction xs arbitrary: i) (auto split: if_splits option.splits)

section \<open>The branches of createOrder\<close>

lemma createOrder_succeeds:
  assumes "\<not> dateBefore (newDate e (od_scheduledDate od)) (today e)"
    and "getMealById w (od_mealId od) = Some ml" and "available ml"
    and "getStudentById w sid = Some st"
    and "findExistingOrder (orderModel w) sid (od_scheduledDate od) = None"
  shows "\<exists>r w'. createOrder e w sid od = (Inr r, w')"
  using assms by (simp add: createOrder_def Let_def split: prod.splits)

lemma createOrder_InrD:
  assumes "createOrder e w sid od = (Inr r, w')"
  shows "\<exists>ml st. \<not> dateBefore (newDate e (od_scheduledDate od)) (today e) \<and>
     getMealById w (od_mealId od) = Some ml \<and> available ml \<and>
     getStudentById w sid = Some st \<and>
     findExistingOrder (orderModel w) sid (od_scheduledDate od) = None"
proof (cases "dateBefore (newDate e (od_scheduledDate od)) (today e)")
  case True
  with assms show ?thesis by (simp add: createOrder_def)
next
  case nb: False
  show ?thesis
  proof (cases "getMealById w (od_mealId od)")
    case None
    with assms nb show ?thesis by (simp add: createOrder_def)
  next
    case (Some ml)
    note ml = this
    show ?thesis
    proof (cases "available ml")
      case False
      with assms nb ml show ?thesis by (simp add: createOrder_def)
    next
      case av: True
      show ?thesis
      proof (cases "getStudentById w sid")
        case None
        with assms nb ml av show ?thesis by (simp add: createOrder_def)
      next
        case (Some st)
        note st = this
        show ?thesis
        proof (cases "findExistingOrder (orderModel w) sid (od_scheduledDate od)")
          case None
          with nb ml av st show ?thesis by simp
        next
          case (Some ex)
          with assms nb ml av st show ?thesis by (simp add: createOrder_def)
        qed
      qed
    qed
  qed
qed

lemma createOrder_success_eq:
  assumes "\<not> dateBefore (newDate e (od_scheduledDate od)) (today e)"
    and "getMealById w (od_mealId od) = Some ml" and "available ml"
    and "getStudentById w sid = Some st"
    and "findExistingOrder (orderModel w) sid (od_scheduledDate od) = None"
    and "createOrder e w sid od = (Inr r, w')"
  shows "totalAmount (cr_order r) = numMul (Num (price ml)) (toNumber e (orderedQuantity od))"
    and "subsidyAmount (cr_order r) =
       (if subsidyEligible st
        then numMul (Num (meal_subsidyAmount ml)) (toNumber e (orderedQuantity od)) else Num 0)"
    and "finalAmount (cr_order r) =
       mathMax (Num 0) (numSub (totalAmount (cr_order r)) (subsidyAmount (cr_order r)))"
    and "orders (orderModel w') = orders (orderModel w) @ [cr_order r]"
    and "meals w' = (meals w)(keyOf (od_mealId od) \<mapsto>
          ml\<lparr>currentQuantity :=
               JNumber (numSub (toNumber e (currentQuantity ml))
                 (toNumber e (orderedQuantity od)))\<rparr>)"
    and "students w' = students w"
    and "quantity (cr_order r) = orderedQuantity od"
    and "mealId (cr_order r) = od_mealId od"
    and "studentId (cr_order r) = sid"
    and "scheduledDate (cr_order r) = od_scheduledDate od"
    and "status (cr_order r) = ''PENDING''"
  using assms
  by (auto simp add: createOrder_def Let_def create_def updateAvailability_def getMealById_def
      orderedQuantity_def)

lemma createOrder_InlD:
  assumes "createOrder e w sid od = (Inl err, w')"
  shows "w' = w \<and>
    (if dateBefore (newDate e (od_scheduledDate od)) (today e)
     then statusCode err = 400 \<and> code err = ''invalid_date''
     else code err \<in> set [''meal_not_available'', ''student_not_found'', ''duplicate_order''])"
proof (cases "dateBefore (newDate e (od_scheduledDate od)) (today e)")
  case True
  with assms show ?thesis by (auto simp add: createOrder_def)
next
  case nb: False
  show ?thesis
  proof (cases "getMealById w (od_mealId od)")
    case None
    with assms nb show ?thesis by (auto simp add: createOrder_def)
  next
    case (Some ml)
    note ml = this
    show ?thesis
    proof (cases "available ml")
      case False
      with assms nb ml show ?thesis by (auto simp add: createOrder_def)
    next
      case av: True
      show ?thesis
      proof (cases "getStudentById w sid")
        case None
        with assms nb ml av show ?thesis by (auto simp add: createOrder_def)
      next
        case (Some st)
        note st = this
        show ?thesis
        proof (cases "findExistingOrder (orderModel w) sid (od_scheduledDate od)")
          case None
          with assms nb ml av st show ?thesis
            by (simp add: createOrder_def Let_def split: prod.splits)
        next
          case (Some ex)
          with assms nb ml av st show ?thesis by (auto simp add: createOrder_def)
        qed
      qed
    qed
  qed
qed

section \<open>Evaluation at the concrete inputs\<close>

lemma env0_simps:
  "newDate env0 (od_scheduledDate od0) = Some 1893456000000"
  "newDate env0 (od_scheduledDate odPast) = Some 1577836800000"
  "today env0 = 1762108200000"
  by (simp_all add: env0_def od0_def odPast_def newDate_def)

lemma initial_lookups:
  "getMealById initialWorld (od_mealId od0) = Some
        \<lparr>meal_id = ''meal_001'', meal_name = ''Rice and Curry'',
         description = ''Traditional Sri Lankan rice with mixed vegetables and dhal curry'',
         price = 50, meal_subsidyAmount = 30, meal_nutritionScore = 85, available = True,
         maxQuantityPerDay = 100, currentQuantity = JNumber (Num 95)\<rparr>"
  "getStudentById initialWorld ''student123'' = Some
        \<lparr>student_id = ''student123'', student_name = ''Kamal Perera'',
         school = ''Royal College'', grade = ''10A'', subsidyEligible = True,
         student_dietaryRestrictions = [''vegetarian''], parentId = ''parent456''\<rparr>"
  "findExistingOrder (orderModel initialWorld) sid d = None"
  by (simp_all add: getMealById_def getStudentById_def initialWorld_def initialMeals_def
      initialStudents_def od0_def keyOf_def findExistingOrder_def emptyStore_def)

lemma od0_not_before: "\<not> dateBefore (newDate env0 (od_scheduledDate od0)) (today env0)"
  by (simp add: env0_simps dateBefore_def)

section \<open>Pricing of a created order\<close>

text \<open>
  C1. Whenever \<open>OrderService.createOrder\<close> returns an order, the meal and the student
  were found, and with \<open>q\<close> the number the quantity of the request stands for (1 when it is
  absent) the order has totalAmount = price * q, subsidyAmount = subsidy * q for a
  subsidy-eligible student and 0 otherwise, and finalAmount = max 0 (price * q - subsidy
  applied), which is max 0 (price * q - subsidy * q) for an eligible student. The three
  amounts are the products, the difference and the \<open>Math.max\<close> of the code in every case,
  also when the quantity stands for no number.
\<close>

theorem createOrder_amounts:
  assumes "createOrder e w sid od = (Inr r, w')"
  shows "\<exists>ml st. getMealById w (od_mealId od) = Some ml \<and> getStudentById w sid = Some st \<and>
     totalAmount (cr_order r) = numMul (Num (price ml)) (toNumber e (orderedQuantity od)) \<and>
     subsidyAmount (cr_order r) =
       (if subsidyEligible st
        then numMul (Num (meal_subsidyAmount ml)) (toNumber e (orderedQuantity od)) else Num 0) \<and>
     finalAmount (cr_order r) =
       mathMax (Num 0) (numSub (totalAmount (cr_order r)) (subsidyAmount (cr_order r))) \<and>
     (\<forall>q. toNumber e (orderedQuantity od) = Num q \<longrightarrow>
        totalAmount (cr_order r) = Num (price ml * q) \<and>
        subsidyAmount (cr_order r) =
          Num (if subsidyEligible st then meal_subsidyAmount ml * q else 0) \<and>
        finalAmount (cr_order r) =
          Num (max 0 (price ml * q -
                 (if subsidyEligible st then meal_subsidyAmount ml * q else 0))))"
proof -
  from createOrder_InrD [OF assms] obtain ml st where
    h: "\<not> dateBefore (newDate e (od_scheduledDate od)) (today e)"
       "getMealById w (od_mealId od) = Some ml" "available ml"
       "getStudentById w sid = Some st"
       "findExistingOrder (orderModel w) sid (od_scheduledDate od) = None"
    by blast
  note eqs = createOrder_success_eq [OF h assms]
  from eqs(1) eqs(2) eqs(3) h(2) h(4) show ?thesis by simp
qed

theorem createOrder_amounts_witness:
  "\<exists>r w'. createOrder env0 initialWorld ''student123'' od0 = (Inr r, w') \<and>
     totalAmount (cr_order r) = Num 150 \<and> subsidyAmount (cr_order r) = Num 90 \<and>
     finalAmount (cr_order r) = Num 60"
proof -
  from createOrder_succeeds [OF od0_not_before initial_lookups(1) _ initial_lookups(2,3)]
  obtain r w' where c: "createOrder env0 initialWorld ''student123'' od0 = (Inr r, w')"
    by auto
  have q: "toNumber env0 (orderedQuantity od0) = Num 3"
    by (simp add: od0_def orderedQuantity_def)
  from createOrder_amounts [OF c] obtain ml st where
    m: "getMealById initialWorld (od_mealId od0) = Some ml" and
    s: "getStudentById initialWorld ''student123'' = Some st" and
    a: "\<forall>q. toNumber env0 (orderedQuantity od0) = Num q \<longrightarrow>
        totalAmount (cr_order r) = Num (price ml * q) \<and>
        subsidyAmount (cr_order r) =
          Num (if subsidyEligible st then meal_subsidyAmount ml * q else 0) \<and>
        finalAmount (cr_order r) =
          Num (max 0 (price ml * q -
                 (if subsidyEligible st then meal_subsidyAmount ml * q else 0)))"
    by blast
  from m have ml: "price ml = 50" "meal_subsidyAmount ml = 30"
    by (auto simp add: initial_lookups)
  from s have st: "subsidyEligible st"
    by (auto simp add: initial_lookups)
  from a q ml st have "totalAmount (cr_order r) = Num 150 \<and> subsidyAmount (cr_order r) = Num 90 \<and>
     finalAmount (cr_order r) = Num 60"
    by simp
  with c show ?thesis by blast
qed

section \<open>The date check\<close>

text \<open>
  The first guard of \<open>createOrder\<close> compares two instants: a scheduledDate whose instant
  lies before the local midnight of the server fails with statusCode 400 and code
  invalid_date, the world being returned as it was, and no other scheduledDate fails with
  that code.
\<close>

lemma createOrder_date_guard:
  assumes "newDate e (od_scheduledDate od) = Some t"
  shows "(t < today e \<longrightarrow>
            createOrder e w sid od =
              (Inl \<lparr>statusCode = 400, code = ''invalid_date'',
                    message = ''Cannot order meals for past dates''\<rparr>, w)) \<and>
         (today e \<le> t \<longrightarrow>
            (\<forall>err. fst (createOrder e w sid od) = Inl err \<longrightarrow> code err \<noteq> ''invalid_date''))"
proof (intro conjI impI allI)
  assume "t < today e"
  with assms show "createOrder e w sid od =
      (Inl \<lparr>statusCode = 400, code = ''invalid_date'',
            message = ''Cannot order meals for past dates''\<rparr>, w)"
    by (simp add: createOrder_def dateBefore_def)
next
  fix err
  assume le: "today e \<le> t" and "fst (createOrder e w sid od) = Inl err"
  then have eq: "createOrder e w sid od = (Inl err, snd (createOrder e w sid od))"
    by (metis prod.collapse)
  from le assms have "\<not> dateBefore (newDate e (od_scheduledDate od)) (today e)"
    by (simp add: dateBefore_def)
  with createOrder_InlD [OF eq] show "code err \<noteq> ''invalid_date''"
    by auto
qed

text \<open>
  C7 fails on the code west of UTC. On a server in New York at noon of 2025-11-03 the
  current local day is day 20395 after the epoch, and the scheduledDate \<open>2025-11-03\<close> names
  that same day; the engine reads the date-only string as midnight UTC, five hours before
  the local midnight the code compares it with, and the order for today is refused with
  400 invalid_date.
\<close>

theorem today_rejected_west_of_utc:
  "today envNewYork \<le> now envNewYork \<and> now envNewYork < today envNewYork + 86400000 \<and>
   (now envNewYork - 18000000) div 86400000 = 20395 \<and>
   newDate envNewYork (od_scheduledDate odToday) = Some (20395 * 86400000) \<and>
   createOrder envNewYork initialWorld ''student123'' odToday =
     (Inl \<lparr>statusCode = 400, code = ''invalid_date'',
           message = ''Cannot order meals for past dates''\<rparr>, initialWorld)"
  by (simp add: envNewYork_def odToday_def od0_def newDate_def createOrder_def dateBefore_def)

section \<open>Mock payment gateway\<close>

text \<open>
  C10. For a stored payment in a cancellable state (INITIATED or PROCESSING),
  \<open>cancelPayment\<close> answers with status CANCELLED and refundAmount 0: the stored status is
  set to CANCELLED before the response tests it against PROCESSING.
\<close>

theorem cancelPayment_refund_zero:
  assumes "payments pid = Some p"
    and "pay_status p \<in> set [''INITIATED'', ''PROCESSING'']"
  shows "\<exists>resp. cancelPayment t payments pid reason =
            (Inr resp, payments(pid \<mapsto> p\<lparr>pay_status := ''CANCELLED'',
               pay_cancelledAt := Some t,
               pay_cancellationReason :=
                 Some (case reason of None \<Rightarrow> ''Customer requested cancellation'' | Some x \<Rightarrow> x)\<rparr>)) \<and>
          cn_status resp = ''CANCELLED'' \<and> cn_refundAmount resp = 0"
  using assms by (auto simp add: cancelPayment_def Let_def)

theorem cancelPayment_refund_zero_witness:
  "\<exists>resp ps. cancelPayment 1762171280000 payments0 ''PAY_20251103_5001'' None = (Inr resp, ps) \<and>
     cn_refundAmount resp = 0 \<and>
     payments0 ''PAY_20251103_5001'' = Some (pay0\<lparr>pay_status := ''PROCESSING''\<rparr>) \<and>
     pay_amount (pay0\<lparr>pay_status := ''PROCESSING''\<rparr>) = 60"
proof -
  have a: "payments0 ''PAY_20251103_5001'' = Some (pay0\<lparr>pay_status := ''PROCESSING''\<rparr>)"
    by (simp add: payments0_def)
  have b: "pay_status (pay0\<lparr>pay_status := ''PROCESSING''\<rparr>) \<in> set [''INITIATED'', ''PROCESSING'']"
    by simp
  from cancelPayment_refund_zero
    [of payments0 "''PAY_20251103_5001''" "pay0\<lparr>pay_status := ''PROCESSING''\<rparr>" 1762171280000 None,
     OF a b] a
  show ?thesis by (auto simp add: pay0_def)
qed

lemma map_upd_same_eq: "(m(k \<mapsto> a) = m(k \<mapsto> b)) = (a = b)"
  by (auto dest: map_upd_eqD1)

text \<open>
  C5. A poll of a stored payment changes that payment only, and its new status is a
  function of the old status, of the time elapsed since initiatedAt and of expiresAt:
  INITIATED becomes PROCESSING once more than 30000 ms have elapsed, PROCESSING becomes
  COMPLETED once more than 60000 ms have elapsed (both steps run in the same poll, so an
  INITIATED payment first polled after 60000 ms comes back COMPLETED), and a payment still
  INITIATED after these steps becomes EXPIRED when the clock has passed expiresAt. Every
  other status is kept, and the status never moves backward.
\<close>

theorem getPaymentStatus_progression:
  assumes "payments pid = Some p"
  shows "\<exists>resp p'. getPaymentStatus c r payments pid = (Inr resp, payments(pid \<mapsto> p')) \<and>
     sr_status resp = pay_status p' \<and>
     pay_initiatedAt p' = pay_initiatedAt p \<and> pay_expiresAt p' = pay_expiresAt p \<and>
     pay_status p' =
       (if pay_status p = ''INITIATED'' then
          (if t_now c - pay_initiatedAt p > 60000 then ''COMPLETED''
           else if t_now c - pay_initiatedAt p > 30000 then ''PROCESSING''
           else if t_expiry c > pay_expiresAt p then ''EXPIRED''
           else ''INITIATED'')
        else if pay_status p = ''PROCESSING'' \<and> t_now c - pay_initiatedAt p > 60000
        then ''COMPLETED''
        else pay_status p) \<and>
     statusRank (pay_status p) \<le> statusRank (pay_status p')"
  using assms
  by (simp add: getPaymentStatus_def Let_def statusRank_def map_upd_same_eq)

theorem getPaymentStatus_progression_witness:
  "\<exists>resp ps. getPaymentStatus \<lparr>t_now = 1762171279567, t_completed = 1762171279567,
        t_expiry = 1762171279568\<rparr> draws0 payments1 ''PAY_20251103_5001'' = (Inr resp, ps) \<and>
     sr_status resp = ''PROCESSING''"
proof -
  have a: "payments1 ''PAY_20251103_5001'' = Some pay0"
    by (simp add: payments1_def)
  from getPaymentStatus_progression
    [of payments1 "''PAY_20251103_5001''" pay0
        "\<lparr>t_now = 1762171279567, t_completed = 1762171279567, t_expiry = 1762171279568\<rparr>" draws0,
     OF a]
  show ?thesis by (auto simp add: pay0_def)
qed

section \<open>The model operations on a found order\<close>

lemma cancelOrder_InrD:
  assumes "cancelOrder e w oid sid reason = (Inr r, w')"
  shows "\<exists>ord. findById (orderModel w) oid = Some ord \<and> studentId ord = sid \<and>
           status ord \<in> set [''PENDING'', ''CONFIRMED'']"
  using assms
  by (cases "findById (orderModel w) oid") (auto simp add: cancelOrder_def split: if_splits)

lemma cancelOrder_success:
  assumes "findById (orderModel w) oid = Some ord" and "studentId ord = sid"
    and "status ord \<in> set [''PENDING'', ''CONFIRMED'']"
  shows "\<exists>r w'. cancelOrder e w oid sid reason = (Inr r, w') \<and>
           students w' = students w \<and>
           meals w' =
             meals (restoreAvailability e w (mealId ord) (scheduledDate ord) (quantity ord)) \<and>
           orderModel w' =
             (if paymentStatus ord = ''PAID'' \<and> numGt (finalAmount ord) (Num 0)
              then snd (updatePaymentStatus e (snd (cancel e (orderModel w) oid reason)) oid ''REFUNDED'')
              else snd (cancel e (orderModel w) oid reason))"
  using assms
  by (auto simp add: cancelOrder_def Let_def restoreAvailability_def split: prod.splits option.splits)

lemma cancel_found:
  assumes "findById s oid = Some ord"
  shows "\<exists>i upd. findIndex (\<lambda>x. orderId x = oid) (orders s) = Some i \<and> i < length (orders s) \<and>
           orders s ! i = ord \<and> cancel e s oid reason = (Some upd, s\<lparr>orders := (orders s)[i := upd]\<rparr>) \<and>
           status upd = ''CANCELLED'' \<and> orderId upd = oid \<and> studentId upd = studentId ord \<and>
           scheduledDate upd = scheduledDate ord"
proof -
  from assms obtain i where i: "findIndex (\<lambda>x. orderId x = oid) (orders s) = Some i"
    "i < length (orders s)" "orders s ! i = ord"
    unfolding findById_def by (blast dest: find_Some_findIndex)
  from findIndex_Some [OF i(1)] i(3) have "orderId ord = oid" by simp
  with i show ?thesis by (simp add: cancel_def Let_def)
qed

lemma updateStatus_found:
  assumes "findById s oid = Some ord"
  shows "\<exists>i upd. findIndex (\<lambda>x. orderId x = oid) (orders s) = Some i \<and> i < length (orders s) \<and>
           orders s ! i = ord \<and>
           updateStatus e s oid newStatus staffId notes = (Some upd, s\<lparr>orders := (orders s)[i := upd]\<rparr>) \<and>
           status upd = newStatus \<and> orderId upd = oid \<and> studentId upd = studentId ord \<and>
           scheduledDate upd = scheduledDate ord \<and>
           statusHistory upd =
             Some ((case statusHistory ord of None \<Rightarrow> [] | Some h \<Rightarrow> h) @
               [\<lparr>h_status = newStatus, h_timestamp = now e, h_staffId = staffId, h_notes = notes\<rparr>])"
proof -
  from assms obtain i where i: "findIndex (\<lambda>x. orderId x = oid) (orders s) = Some i"
    "i < length (orders s)" "orders s ! i = ord"
    unfolding findById_def by (blast dest: find_Some_findIndex)
  from findIndex_Some [OF i(1)] i(3) have "orderId ord = oid" by simp
  with i show ?thesis by (simp add: updateStatus_def Let_def)
qed

section \<open>Evaluation of the concrete runs\<close>

lemmas eval_defs = createOrder_def cancelOrder_def updateOrderStatus_def create_def cancel_def
  updateStatus_def updatePaymentStatus_def findById_def findExistingOrder_def getMealById_def
  getStudentById_def updateAvailability_def restoreAvailability_def initialWorld_def
  initialMeals_def initialStudents_def emptyStore_def env0_def od0_def keyOf_def newDate_def
  dateBefore_def Let_def showNat.simps digitChar_def showInt_def sliceLast_def

lemma worldA_eval:
  "summary worldA = [(''ORD10004567'', ''student123'', Some ''2030-01-01'', ''PENDING'')]"
  "counter (orderModel worldA) = 1001"
  "map_option currentQuantity (meals worldA ''meal_001'') = Some (JNumber (Num 92))"
  by (simp_all add: worldA_def summary_def eval_defs)


lemma worldB_eval:
  "summary worldB = [(''ORD10004567'', ''student123'', Some ''2030-01-01'', ''CANCELLED'')]"
  "map_option currentQuantity (meals worldB ''meal_001'') = Some (JNumber (Num 95))"
  by (simp_all add: worldB_def worldA_def summary_def eval_defs)

lemma worldC_eval:
  "summary worldC = [(''ORD10004567'', ''student123'', Some ''2030-01-01'', ''CANCELLED''),
                     (''ORD10014567'', ''student123'', Some ''2030-01-01'', ''PENDING'')]"
  by (simp_all add: worldC_def worldB_def worldA_def summary_def eval_defs)



lemma worldA_find:
  "\<exists>ord. findById (orderModel worldA) ''ORD10004567'' = Some ord \<and> status ord = ''PENDING'' \<and>
     studentId ord = ''student123''"
  by (simp add: worldA_def eval_defs)

lemma worldDel_find:
  "\<exists>ord. findById (orderModel worldDel) ''ORD10004567'' = Some ord \<and> status ord = ''DELIVERED'' \<and>
     studentId ord = ''student123'' \<and> map_option length (statusHistory ord) = Some 1"
  by (simp add: worldDel_def worldA_def eval_defs)

section \<open>Staff status update\<close>

text \<open>
  C4. For every order the store finds under the id and every status of the allow-list
  CONFIRMED, PREPARING, READY, DELIVERED, the request passes \<open>validateStatusUpdate\<close> and
  \<open>updateOrderStatus\<close> succeeds whatever the current status is: the stored order then has
  the requested status, and its statusHistory is the old one (empty when absent) with
  exactly one entry appended. No order is added or removed.
\<close>

theorem updateOrderStatus_overwrites:
  assumes "findById (orderModel w) oid = Some ord" and "newStatus \<in> set validStatuses"
  shows "validateStatusUpdate (Some newStatus) = Next \<and>
    (\<exists>upd w'. updateOrderStatus e w oid staffId newStatus notes =
        (Inr \<lparr>or_order = Some upd, or_message = ''Order status updated successfully''\<rparr>, w') \<and>
       findById (orderModel w') oid = Some upd \<and> status upd = newStatus \<and>
       statusHistory upd =
         Some ((case statusHistory ord of None \<Rightarrow> [] | Some h \<Rightarrow> h) @
           [\<lparr>h_status = newStatus, h_timestamp = now e, h_staffId = staffId, h_notes = notes\<rparr>]) \<and>
       length (orders (orderModel w')) = length (orders (orderModel w)) \<and>
       meals w' = meals w)"
proof
  from assms(2) show "validateStatusUpdate (Some newStatus) = Next"
    by (auto simp add: validateStatusUpdate_def validStatuses_def truthyStr_def)
next
  from updateStatus_found [OF assms(1), of e newStatus staffId "notes"]
  obtain i upd where u: "findIndex (\<lambda>x. orderId x = oid) (orders (orderModel w)) = Some i"
    "updateStatus e (orderModel w) oid newStatus staffId notes =
       (Some upd, (orderModel w)\<lparr>orders := (orders (orderModel w))[i := upd]\<rparr>)"
    "status upd = newStatus" "orderId upd = oid"
    "statusHistory upd =
             Some ((case statusHistory ord of None \<Rightarrow> [] | Some h \<Rightarrow> h) @
               [\<lparr>h_status = newStatus, h_timestamp = now e, h_staffId = staffId, h_notes = notes\<rparr>])"
    by blast
  from find_list_update [OF u(1), of upd] u(4)
  have f: "find (\<lambda>x. orderId x = oid) ((orders (orderModel w))[i := upd]) = Some upd"
    by simp
  from assms(1) u f show "\<exists>upd w'. updateOrderStatus e w oid staffId newStatus notes =
        (Inr \<lparr>or_order = Some upd, or_message = ''Order status updated successfully''\<rparr>, w') \<and>
       findById (orderModel w') oid = Some upd \<and> status upd = newStatus \<and>
       statusHistory upd =
         Some ((case statusHistory ord of None \<Rightarrow> [] | Some h \<Rightarrow> h) @
           [\<lparr>h_status = newStatus, h_timestamp = now e, h_staffId = staffId, h_notes = notes\<rparr>]) \<and>
       length (orders (orderModel w')) = length (orders (orderModel w)) \<and>
       meals w' = meals w"
    by (simp add: updateOrderStatus_def findById_def)
qed

theorem updateOrderStatus_overwrites_witness:
  "\<exists>ord upd w'. findById (orderModel worldDel) ''ORD10004567'' = Some ord \<and>
     status ord = ''DELIVERED'' \<and> map_option length (statusHistory ord) = Some 1 \<and>
     updateOrderStatus env0 worldDel ''ORD10004567'' ''staff1'' ''CONFIRMED'' None =
        (Inr \<lparr>or_order = Some upd, or_message = ''Order status updated successfully''\<rparr>, w') \<and>
     status upd = ''CONFIRMED'' \<and> map_option length (statusHistory upd) = Some 2"
proof -
  from worldDel_find obtain ord where
    o: "findById (orderModel worldDel) ''ORD10004567'' = Some ord" "status ord = ''DELIVERED''"
       "map_option length (statusHistory ord) = Some 1"
    by blast
  have v: "''CONFIRMED'' \<in> set validStatuses"
    by (simp add: validStatuses_def)
  from updateOrderStatus_overwrites [OF o(1) v, of env0 "''staff1''" None] obtain upd w' where
    u: "updateOrderStatus env0 worldDel ''ORD10004567'' ''staff1'' ''CONFIRMED'' None =
        (Inr \<lparr>or_order = Some upd, or_message = ''Order status updated successfully''\<rparr>, w')"
       "status upd = ''CONFIRMED''"
       "statusHistory upd =
         Some ((case statusHistory ord of None \<Rightarrow> [] | Some h \<Rightarrow> h) @
           [\<lparr>h_status = ''CONFIRMED'', h_timestamp = now env0, h_staffId = ''staff1'', h_notes = None\<rparr>])"
    by blast
  from o(3) u(3) have "map_option length (statusHistory upd) = Some 2"
    by (cases "statusHistory ord") auto
  with o u(1,2) show ?thesis by blast
qed

section \<open>Cancellation\<close>

text \<open>
  C3, as stated, fails: a DELIVERED order of student123 cancelled under the id of
  student124 is answered with 404 order_not_found, not with 400 cannot_cancel.
\<close>

theorem cancelOrder_other_student_counterexample:
  "(\<exists>ord. findById (orderModel worldDel) ''ORD10004567'' = Some ord \<and> status ord = ''DELIVERED'') \<and>
   cancelOrder env0 worldDel ''ORD10004567'' ''student124'' None =
     (Inl \<lparr>statusCode = 404, code = ''order_not_found'', message = ''Order not found''\<rparr>, worldDel)"
proof
  from worldDel_find
  show "\<exists>ord. findById (orderModel worldDel) ''ORD10004567'' = Some ord \<and> status ord = ''DELIVERED''"
    by blast
next
  from worldDel_find obtain ord where
    o: "findById (orderModel worldDel) ''ORD10004567'' = Some ord"
       "studentId ord = ''student123''"
    by blast
  then show "cancelOrder env0 worldDel ''ORD10004567'' ''student124'' None =
     (Inl \<lparr>statusCode = 404, code = ''order_not_found'', message = ''Order not found''\<rparr>, worldDel)"
    by (simp add: cancelOrder_def)
qed

text \<open>
  C3, amended. \<open>cancelOrder\<close> succeeds only when the order found under the id belongs to the
  calling student and has status PENDING or CONFIRMED. For an order of the calling student
  in any other status it fails with statusCode 400 and code cannot_cancel, and for an order
  of another student with 404 order_not_found; in both cases the world is returned
  unchanged.
\<close>

theorem cancelOrder_status_guard:
  "(\<forall>r w'. cancelOrder e w oid sid reason = (Inr r, w') \<longrightarrow>
      (\<exists>ord. findById (orderModel w) oid = Some ord \<and> studentId ord = sid \<and>
         status ord \<in> set [''PENDING'', ''CONFIRMED''])) \<and>
   (\<forall>ord. findById (orderModel w) oid = Some ord \<and> studentId ord = sid \<and>
         status ord \<notin> set [''PENDING'', ''CONFIRMED''] \<longrightarrow>
      cancelOrder e w oid sid reason =
        (Inl \<lparr>statusCode = 400, code = ''cannot_cancel'',
              message = ''Order cannot be cancelled at this stage''\<rparr>, w)) \<and>
   (\<forall>ord. findById (orderModel w) oid = Some ord \<and> studentId ord \<noteq> sid \<longrightarrow>
      cancelOrder e w oid sid reason =
        (Inl \<lparr>statusCode = 404, code = ''order_not_found'', message = ''Order not found''\<rparr>, w))"
proof (intro conjI allI impI)
  fix r w'
  assume "cancelOrder e w oid sid reason = (Inr r, w')"
  then show "\<exists>ord. findById (orderModel w) oid = Some ord \<and> studentId ord = sid \<and>
         status ord \<in> set [''PENDING'', ''CONFIRMED'']"
    by (rule cancelOrder_InrD)
next
  fix ord
  assume "findById (orderModel w) oid = Some ord \<and> studentId ord = sid \<and>
         status ord \<notin> set [''PENDING'', ''CONFIRMED'']"
  then show "cancelOrder e w oid sid reason =
        (Inl \<lparr>statusCode = 400, code = ''cannot_cancel'',
              message = ''Order cannot be cancelled at this stage''\<rparr>, w)"
    by (simp add: cancelOrder_def)
next
  fix ord
  assume "findById (orderModel w) oid = Some ord \<and> studentId ord \<noteq> sid"
  then show "cancelOrder e w oid sid reason =
        (Inl \<lparr>statusCode = 404, code = ''order_not_found'', message = ''Order not found''\<rparr>, w)"
    by (simp add: cancelOrder_def)
qed


theorem cancelOrder_status_guard_witness:
  "cancelOrder env0 worldDel ''ORD10004567'' ''student123'' None =
        (Inl \<lparr>statusCode = 400, code = ''cannot_cancel'',
              message = ''Order cannot be cancelled at this stage''\<rparr>, worldDel) \<and>
   (\<exists>r w'. cancelOrder env0 worldA ''ORD10004567'' ''student123'' None = (Inr r, w'))"
proof
  from worldDel_find obtain ord where
    o: "findById (orderModel worldDel) ''ORD10004567'' = Some ord" "status ord = ''DELIVERED''"
       "studentId ord = ''student123''"
    by blast
  from o(2) have "status ord \<notin> set [''PENDING'', ''CONFIRMED'']" by simp
  with o cancelOrder_status_guard [of env0 worldDel "''ORD10004567''" "''student123''" None]
  show "cancelOrder env0 worldDel ''ORD10004567'' ''student123'' None =
        (Inl \<lparr>statusCode = 400, code = ''cannot_cancel'',
              message = ''Order cannot be cancelled at this stage''\<rparr>, worldDel)"
    by blast
next
  from worldA_find obtain ord where
    o: "findById (orderModel worldA) ''ORD10004567'' = Some ord" "status ord = ''PENDING''"
       "studentId ord = ''student123''"
    by blast
  from o(2) have "status ord \<in> set [''PENDING'', ''CONFIRMED'']" by simp
  from cancelOrder_success [OF o(1) o(3) this, of env0 None]
  show "\<exists>r w'. cancelOrder env0 worldA ''ORD10004567'' ''student123'' None = (Inr r, w')"
    by blast
qed

section \<open>Validation of an order request\<close>

text \<open>
  C6, as stated, fails: a request with quantity 3 and no mealId is answered with 400
  validation_error and is not passed on.
\<close>

theorem validateOrderRequest_counterexample:
  "od_quantity (od0\<lparr>od_mealId := None\<rparr>) = JNumber (Num 3) \<and>
   validateOrderRequest env0 (od0\<lparr>od_mealId := None\<rparr>) =
     Responded 400 \<lparr>eb_success = False, eb_error = ''validation_error'',
       eb_message = ''Request validation failed'', eb_details = Some [''Meal ID is required''],
       eb_validStatuses = None\<rparr>"
  by (simp add: validateOrderRequest_def od0_def env0_def newDate_def truthyStr_def)

lemma toNumber_positive_truthy: "toNumber e v = Num n \<Longrightarrow> 1 \<le> n \<Longrightarrow> truthy v"
  by (cases v rule: truthy.cases) (auto split: if_splits)

text \<open>
  C6, amended. A request whose quantity is missing or otherwise falsy, or stands for a
  number below 1 or above 10, is answered with 400 and error validation_error. A request
  whose quantity stands for a number between 1 and 10 is passed on to the handler when
  mealId and scheduledDate are present and non-empty and scheduledDate parses as a date.
\<close>

theorem validateOrderRequest_quantity:
  "((\<not> truthy (od_quantity body) \<or> numLt (toNumber e (od_quantity body)) (Num 1) \<or>
     numGt (toNumber e (od_quantity body)) (Num 10)) \<longrightarrow>
      (\<exists>errs. validateOrderRequest e body =
         Responded 400 \<lparr>eb_success = False, eb_error = ''validation_error'',
           eb_message = ''Request validation failed'', eb_details = Some errs,
           eb_validStatuses = None\<rparr>)) \<and>
   ((\<exists>n. toNumber e (od_quantity body) = Num n \<and> 1 \<le> n \<and> n \<le> 10) \<and>
    truthyStr (od_mealId body) \<and> truthyStr (od_scheduledDate body) \<and>
    newDate e (od_scheduledDate body) \<noteq> None \<longrightarrow>
      validateOrderRequest e body = Next)"
proof (intro conjI impI)
  assume "\<not> truthy (od_quantity body) \<or> numLt (toNumber e (od_quantity body)) (Num 1) \<or>
     numGt (toNumber e (od_quantity body)) (Num 10)"
  then show "\<exists>errs. validateOrderRequest e body =
         Responded 400 \<lparr>eb_success = False, eb_error = ''validation_error'',
           eb_message = ''Request validation failed'', eb_details = Some errs,
           eb_validStatuses = None\<rparr>"
    by (auto simp add: validateOrderRequest_def Let_def)
next
  assume a: "(\<exists>n. toNumber e (od_quantity body) = Num n \<and> 1 \<le> n \<and> n \<le> 10) \<and>
    truthyStr (od_mealId body) \<and> truthyStr (od_scheduledDate body) \<and>
    newDate e (od_scheduledDate body) \<noteq> None"
  then obtain n where n: "toNumber e (od_quantity body) = Num n" "1 \<le> n" "n \<le> 10"
    by blast
  from toNumber_positive_truthy [OF n(1) n(2)] have "truthy (od_quantity body)" .
  with a n show "validateOrderRequest e body = Next"
    by (simp add: validateOrderRequest_def Let_def)
qed

theorem validateOrderRequest_quantity_witness:
  "(\<exists>errs. validateOrderRequest env0 (od0\<lparr>od_quantity := JNumber (Num 11)\<rparr>) =
         Responded 400 \<lparr>eb_success = False, eb_error = ''validation_error'',
           eb_message = ''Request validation failed'', eb_details = Some errs,
           eb_validStatuses = None\<rparr>) \<and>
   (\<exists>errs. validateOrderRequest env0 (od0\<lparr>od_quantity := JString ''11''\<rparr>) =
         Responded 400 \<lparr>eb_success = False, eb_error = ''validation_error'',
           eb_message = ''Request validation failed'', eb_details = Some errs,
           eb_validStatuses = None\<rparr>) \<and>
   (\<exists>errs. validateOrderRequest env0 (od0\<lparr>od_quantity := JUndefined\<rparr>) =
         Responded 400 \<lparr>eb_success = False, eb_error = ''validation_error'',
           eb_message = ''Request validation failed'', eb_details = Some errs,
           eb_validStatuses = None\<rparr>) \<and>
   validateOrderRequest env0 od0 = Next \<and>
   validateOrderRequest env0 odStr = Next"
  using validateOrderRequest_quantity [of "od0\<lparr>od_quantity := JNumber (Num 11)\<rparr>" env0]
    validateOrderRequest_quantity [of "od0\<lparr>od_quantity := JString ''11''\<rparr>" env0]
    validateOrderRequest_quantity [of "od0\<lparr>od_quantity := JUndefined\<rparr>" env0]
    validateOrderRequest_quantity [of od0 env0]
    validateOrderRequest_quantity [of odStr env0]
  by (simp add: od0_def odStr_def env0_def newDate_def truthyStr_def)

section \<open>Meal availability\<close>

lemma worldA_create:
  "\<exists>r. createOrder env0 initialWorld ''student123'' od0 = (Inr r, worldA) \<and>
     findById (orderModel worldA) (orderId (cr_order r)) = Some (cr_order r) \<and>
     orderId (cr_order r) = ''ORD10004567''"
  by (simp add: worldA_def eval_defs)

lemma worldB_cancel:
  "\<exists>r. cancelOrder env0 worldA ''ORD10004567'' ''student123'' None = (Inr r, worldB)"
  by (simp add: worldB_def worldA_def eval_defs)

text \<open>The counter has no lower bound: an order of 100 leaves it at -5.\<close>

lemma negative_stock:
  "map_option currentQuantity
     (meals (snd (createOrder env0 initialWorld ''student123''
        (od0\<lparr>od_quantity := JNumber (Num 100)\<rparr>))) ''meal_001'') = Some (JNumber (Num (- 5)))"
  by (simp add: eval_defs)

text \<open>
  When the counter and the quantity are numbers, a successful \<open>createOrder\<close> lowers the
  currentQuantity of the ordered meal by the quantity, and cancelling the order the store
  finds under the new id raises it by the same quantity: the meal table is then what it
  was before the order.
\<close>

lemma availability_round_trip_numbers:
  assumes c: "createOrder e w sid od = (Inr r, w1)"
    and f: "findById (orderModel w1) (orderId (cr_order r)) = Some (cr_order r)"
    and x: "cancelOrder e' w1 (orderId (cr_order r)) sid' reason = (Inr r', w2)"
    and m: "meals w (keyOf (od_mealId od)) = Some ml"
    and k: "currentQuantity ml = JNumber (Num k)"
    and n: "orderedQuantity od = JNumber (Num n)"
  shows "meals w1 = (meals w)(keyOf (od_mealId od) \<mapsto> ml\<lparr>currentQuantity := JNumber (Num (k - n))\<rparr>)"
    and "meals w2 = meals w"
proof -
  from createOrder_InrD [OF c] m obtain st where
    h: "\<not> dateBefore (newDate e (od_scheduledDate od)) (today e)"
       "getMealById w (od_mealId od) = Some ml" "available ml"
       "getStudentById w sid = Some st"
       "findExistingOrder (orderModel w) sid (od_scheduledDate od) = None"
    by (auto simp add: getMealById_def)
  note eqs = createOrder_success_eq [OF h c]
  from eqs(5) k n show
    w1: "meals w1 = (meals w)(keyOf (od_mealId od) \<mapsto> ml\<lparr>currentQuantity := JNumber (Num (k - n))\<rparr>)"
    by simp
  from cancelOrder_InrD [OF x] f have
    g: "studentId (cr_order r) = sid'" "status (cr_order r) \<in> set [''PENDING'', ''CONFIRMED'']"
    by auto
  from cancelOrder_success [OF f g, of e' reason] x have
    "meals w2 = meals (restoreAvailability e' w1 (mealId (cr_order r)) (scheduledDate (cr_order r))
        (quantity (cr_order r)))"
    by auto
  with w1 eqs(7) eqs(8) n have
    "meals w2 = (meals w1)(keyOf (od_mealId od) \<mapsto> ml\<lparr>currentQuantity := JNumber (Num k)\<rparr>)"
    by (simp add: restoreAvailability_def)
  moreover from k have "ml\<lparr>currentQuantity := JNumber (Num k)\<rparr> = ml"
    by simp
  ultimately show "meals w2 = meals w"
    using w1 m by (simp add: fun_upd_idem)
qed

lemma worldS1_create:
  "\<exists>r. createOrder env0 initialWorld ''student123'' odStr = (Inr r, worldS1) \<and>
     orderId (cr_order r) = ''ORD10004567'' \<and> quantity (cr_order r) = JString ''3'' \<and>
     totalAmount (cr_order r) = Num 150"
  by (simp add: worldS1_def odStr_def eval_defs)

lemma worldS2_cancel:
  "\<exists>r. cancelOrder env0 worldS1 ''ORD10004567'' ''student123'' None = (Inr r, worldS2)"
  by (simp add: worldS2_def worldS1_def odStr_def eval_defs)

lemma worldS_counters:
  "map_option currentQuantity (meals initialWorld ''meal_001'') = Some (JNumber (Num 95))"
  "map_option currentQuantity (meals worldS1 ''meal_001'') = Some (JNumber (Num 92))"
  "map_option currentQuantity (meals worldS2 ''meal_001'') = Some (JString ''923'')"
  by (simp_all add: worldS2_def worldS1_def odStr_def eval_defs)

text \<open>The request with the quantity \<open>"3"\<close> passes the validation middleware.\<close>

lemma string_quantity_passes_validation: "validateOrderRequest env0 odStr = Next"
  by (simp add: validateOrderRequest_def odStr_def od0_def env0_def newDate_def truthyStr_def)

text \<open>
  C8 fails on the code when the quantity arrives as a string. The order with quantity
  \<open>"3"\<close> is created with the quantity stored as received; creation lowers the counter of
  the meal from 95 to 92, since \<open>-=\<close> converts the string, and the cancellation of that
  order then leaves the string \<open>"923"\<close> in the counter, since \<open>+=\<close> concatenates.
\<close>

theorem string_quantity_not_restored:
  "map_option currentQuantity (meals initialWorld ''meal_001'') = Some (JNumber (Num 95)) \<and>
   (\<exists>r. createOrder env0 initialWorld ''student123'' odStr = (Inr r, worldS1) \<and>
      orderId (cr_order r) = ''ORD10004567'' \<and> quantity (cr_order r) = JString ''3'' \<and>
      totalAmount (cr_order r) = Num 150) \<and>
   map_option currentQuantity (meals worldS1 ''meal_001'') = Some (JNumber (Num 92)) \<and>
   (\<exists>r. cancelOrder env0 worldS1 ''ORD10004567'' ''student123'' None = (Inr r, worldS2)) \<and>
   map_option currentQuantity (meals worldS2 ''meal_001'') = Some (JString ''923'')"
  using worldS1_create worldS2_cancel worldS_counters by blast

section \<open>One active order per student and date\<close>


























end
